theory Spec2Isabelle
  imports Complex_Main
begin

section \<open>The Go library functions the server calls\<close>

text \<open>
  Go strings are byte sequences; they are modelled as \<open>string\<close> (a list of 8-bit
  characters). \<open>strings.TrimSpace\<close>, \<open>strings.ToUpper\<close>, \<open>strings.ToLower\<close> and
  \<open>strings.EqualFold\<close> each have a path for ASCII bytes, which is modelled as the
  library writes it, and hand over to a function on runes as soon as they meet a byte of
  \<open>0x80\<close> or above. Those functions on runes (UTF-8 decoding, the Unicode tables of
  white space, of letter case and of case folding) are not modelled: they are the
  fields of a record of which every definition that calls the library takes a value
  \<open>U\<close>, and every theorem below holds for every \<open>U\<close>.
\<close>

record Unicode =
  TrimFunc :: "string \<Rightarrow> string"
  TrimRightFunc :: "string \<Rightarrow> string"
  MapToUpper :: "string \<Rightarrow> string"
  MapToLower :: "string \<Rightarrow> string"
  FoldRunes :: "string \<Rightarrow> string \<Rightarrow> bool"

definition isASCII :: "char \<Rightarrow> bool" where
  "isASCII c = (of_char c < (128::nat))"

definition asciiSpace :: "char \<Rightarrow> bool" where
  "asciiSpace c = (c = CHR 0x09 \<or> c = CHR 0x0A \<or> c = CHR 0x0B \<or> c = CHR 0x0C
                    \<or> c = CHR 0x0D \<or> c = CHR '' '')"

text \<open>
  \<open>strings.TrimSpace\<close> skips ASCII white space from the start; at a byte that is not
  ASCII it returns \<open>TrimFunc(s[start:], unicode.IsSpace)\<close>. Otherwise it skips ASCII
  white space from the end; at a byte that is not ASCII it returns
  \<open>TrimRightFunc(s[start:stop], unicode.IsSpace)\<close>, and otherwise \<open>s[start:stop]\<close>.
\<close>

definition TrimSpace :: "Unicode \<Rightarrow> string \<Rightarrow> string" where
  "TrimSpace U s =
     (let fromStart = dropWhile asciiSpace s
      in case fromStart of
           [] \<Rightarrow> []
         | c # _ \<Rightarrow>
             if \<not> isASCII c then TrimFunc U fromStart
             else (let back = dropWhile asciiSpace (rev fromStart)
                   in case back of
                        [] \<Rightarrow> []
                      | d # _ \<Rightarrow>
                          if \<not> isASCII d then TrimRightFunc U (rev back) else rev back))"

definition upperChar :: "char \<Rightarrow> char" where
  "upperChar c =
     (if (97::nat) \<le> of_char c \<and> of_char c \<le> (122::nat)
      then char_of (of_char c - (32::nat)) else c)"

definition lowerChar :: "char \<Rightarrow> char" where
  "lowerChar c =
     (if (65::nat) \<le> of_char c \<and> of_char c \<le> (90::nat)
      then char_of (of_char c + (32::nat)) else c)"

text \<open>
  \<open>strings.ToUpper\<close> and \<open>strings.ToLower\<close> map the letters of a string that has
  only ASCII bytes byte by byte, and return \<open>Map(unicode.ToUpper, s)\<close> and
  \<open>Map(unicode.ToLower, s)\<close> for any other string.
\<close>

definition ToUpper :: "Unicode \<Rightarrow> string \<Rightarrow> string" where
  "ToUpper U s = (if list_all isASCII s then map upperChar s else MapToUpper U s)"

definition ToLower :: "Unicode \<Rightarrow> string \<Rightarrow> string" where
  "ToLower U s = (if list_all isASCII s then map lowerChar s else MapToLower U s)"

text \<open>
  \<open>strings.EqualFold\<close> compares byte by byte while both bytes are ASCII: equal bytes
  pass, and so do an upper-case letter and its lower-case letter; when one string ends,
  the other must end too. At the first position where a byte is not ASCII the rest of
  both strings is compared rune by rune under Unicode case folding (\<open>FoldRunes\<close>).
\<close>

definition foldPair :: "char \<Rightarrow> char \<Rightarrow> bool" where
  "foldPair sr tr =
     (let lo = min (of_char sr) (of_char tr); hi = max (of_char sr) (of_char tr)
      in (65::nat) \<le> lo \<and> lo \<le> 90 \<and> hi = lo + 32)"

fun EqualFold :: "Unicode \<Rightarrow> string \<Rightarrow> string \<Rightarrow> bool" where
  "EqualFold U [] t = (t = [])"
| "EqualFold U (sr # s) [] = False"
| "EqualFold U (sr # s) (tr # t) =
     (if \<not> isASCII sr \<or> \<not> isASCII tr then FoldRunes U (sr # s) (tr # t)
      else if tr = sr then EqualFold U s t
      else if foldPair sr tr then EqualFold U s t
      else False)"

text \<open>
  \<open>filepath.Ext\<close> scans the path from its last byte towards the first, stops at a
  path separator, and returns the suffix that starts at the first dot it meets (the
  empty string when there is none). \<open>ExtScan\<close> takes the path reversed and the suffix
  scanned so far.
\<close>

fun ExtScan :: "string \<Rightarrow> string \<Rightarrow> string" where
  "ExtScan [] suffix = []"
| "ExtScan (c # cs) suffix =
     (if c = CHR ''/'' then []
      else if c = CHR ''.'' then c # suffix
      else ExtScan cs (c # suffix))"

definition Ext :: "string \<Rightarrow> string" where
  "Ext path = ExtScan (rev path) []"

text \<open>
  \<open>strconv.Atoi\<close>, with \<open>int\<close> of 64 bits. A string of 1 to 18 bytes takes the fast
  path: an optional sign, then digits only, any other byte being a syntax error. Any
  other string goes to \<open>ParseInt(s, 10, 0)\<close>, which strips the sign and calls
  \<open>ParseUint\<close>. The loop of \<open>ParseUint\<close> reads byte by byte: a byte that is no digit
  is a syntax error with value 0; when the value so far cannot take another digit within
  64 bits, it stops there with the greatest unsigned value and a range error, before it
  reads any later byte. \<open>ParseInt\<close> passes a syntax error on with 0, and brings a value
  outside the range of \<open>int\<close> to the nearest bound, with a range error.
\<close>

datatype NumError = ErrSyntax | ErrRange

definition isDigit :: "char \<Rightarrow> bool" where
  "isDigit c = ((48::nat) \<le> of_char c \<and> of_char c \<le> (57::nat))"

fun digitsValue :: "int \<Rightarrow> string \<Rightarrow> int option" where
  "digitsValue n [] = Some n"
| "digitsValue n (c # cs) =
     (if isDigit c then digitsValue (n * 10 + (of_char c - 48)) cs else None)"

fun ParseUintLoop :: "int \<Rightarrow> string \<Rightarrow> int \<times> NumError option" where
  "ParseUintLoop n [] = (n, None)"
| "ParseUintLoop n (c # cs) =
     (if \<not> isDigit c then (0, Some ErrSyntax)
      else if 1844674407370955162 \<le> n then (18446744073709551615, Some ErrRange)
      else (let n1 = n * 10 + (of_char c - 48)
            in if 18446744073709551615 < n1 then (18446744073709551615, Some ErrRange)
               else ParseUintLoop n1 cs))"

definition ParseUint :: "string \<Rightarrow> int \<times> NumError option" where
  "ParseUint s = (if s = [] then (0, Some ErrSyntax) else ParseUintLoop 0 s)"

definition ParseInt :: "string \<Rightarrow> int \<times> NumError option" where
  "ParseInt s =
     (case s of
        [] \<Rightarrow> (0, Some ErrSyntax)
      | c # cs \<Rightarrow>
          (let neg = (c = CHR ''-'');
               (un, err) = ParseUint (if c = CHR ''+'' \<or> c = CHR ''-'' then cs else s)
           in if err = Some ErrSyntax then (0, err)
              else if \<not> neg \<and> 9223372036854775808 \<le> un
              then (9223372036854775807, Some ErrRange)
              else if neg \<and> 9223372036854775808 < un
              then (- 9223372036854775808, Some ErrRange)
              else (if neg then - un else un, None)))"

definition Atoi :: "string \<Rightarrow> int \<times> NumError option" where
  "Atoi s =
     (case s of
        [] \<Rightarrow> ParseInt s
      | c # cs \<Rightarrow>
          if length s < 19
          then (let ds = (if c = CHR ''-'' \<or> c = CHR ''+'' then cs else s)
                in if ds = [] then (0, Some ErrSyntax)
                   else (case digitsValue 0 ds of
                           None \<Rightarrow> (0, Some ErrSyntax)
                         | Some n \<Rightarrow> (if c = CHR ''-'' then - n else n, None)))
          else ParseInt s)"

text \<open>\<open>strconv.Itoa\<close>: the decimal digits of an integer, with a minus sign when negative.\<close>

function decimalDigits :: "int \<Rightarrow> string" where
  "decimalDigits n =
     (if n < 10 then [char_of (48 + n)]
      else decimalDigits (n div 10) @ [char_of (48 + n mod 10)])"
  by pat_completeness auto
termination
  by (relation "measure nat") auto

definition Itoa :: "int \<Rightarrow> string" where
  "Itoa i = (if i < 0 then CHR ''-'' # decimalDigits (- i) else decimalDigits i)"

text \<open>
  A \<open>float64\<close> value is a rational number, an infinity or not-a-number. The comparison
  \<open>>\<close> of Go is false whenever an operand is not-a-number. Negative zero compares equal
  to zero and is not kept apart. \<open>strconv.ParseFloat\<close> (which rounds to the nearest
  \<open>float64\<close>) and \<open>fmt.Sprintf("%.1f", _)\<close> are parameters of the functions that call
  them: \<open>ParseFloat s = None\<close> stands for a non-nil error.
\<close>

datatype float64 = NaN | NegInf | Finite rat | PosInf

fun f64_gt :: "float64 \<Rightarrow> float64 \<Rightarrow> bool" where
  "f64_gt NaN b = False"
| "f64_gt a NaN = False"
| "f64_gt NegInf b = False"
| "f64_gt a NegInf = True"
| "f64_gt PosInf PosInf = False"
| "f64_gt PosInf (Finite b) = True"
| "f64_gt (Finite a) PosInf = False"
| "f64_gt (Finite a) (Finite b) = (b < a)"

section \<open>Configuration tables\<close>

text \<open>
  The package-level tables \<open>Versions\<close> (protocol version to allowed methods),
  \<open>ServerDefaults\<close> and \<open>AllowedContentTypes\<close> are declared outside the source files
  and are parameters here. \<open>Versions\<close> is ranged over by the code, so it is an
  association list, in whatever order the iteration visits it; the other two are only
  indexed. Indexing a Go map of strings at a missing key gives the empty string.
\<close>

type_synonym VersionsTable = "(string \<times> string list) list"

definition mapIndex :: "(string \<rightharpoonup> string) \<Rightarrow> string \<Rightarrow> string" where
  "mapIndex m k = (case m k of None \<Rightarrow> [] | Some v \<Rightarrow> v)"

section \<open>Helpers of the http package\<close>

text \<open>\<open>getDefaultPort\<close>: the entry \<open>port\<close> of the defaults, the error of \<open>Atoi\<close> dropped.\<close>

definition getDefaultPort :: "(string \<rightharpoonup> string) \<Rightarrow> int" where
  "getDefaultPort ServerDefaults =
     (let portNumberValue = mapIndex ServerDefaults ''port'';
          (portNumber, _) = Atoi portNumberValue
      in portNumber)"

definition getServerDefaults :: "Unicode \<Rightarrow> (string \<rightharpoonup> string) \<Rightarrow> string \<Rightarrow> string" where
  "getServerDefaults U ServerDefaults key =
     (let v = mapIndex ServerDefaults (TrimSpace U key) in TrimSpace U v)"

text \<open>
  \<open>getHighestVersion\<close>: the loop over the keys of \<open>Versions\<close> keeps the greatest value
  parsed so far, starting from 0; the result is that value printed with one fractional
  digit.
\<close>

fun highestLoop :: "(string \<Rightarrow> float64 option) \<Rightarrow> float64 \<Rightarrow> string list \<Rightarrow> float64" where
  "highestLoop ParseFloat maxVersion [] = maxVersion"
| "highestLoop ParseFloat maxVersion (versionNo # rest) =
     (case ParseFloat versionNo of
        Some currentVersion \<Rightarrow>
          (if f64_gt currentVersion maxVersion
           then highestLoop ParseFloat currentVersion rest
           else highestLoop ParseFloat maxVersion rest)
      | None \<Rightarrow> highestLoop ParseFloat maxVersion rest)"

definition getHighestVersion ::
  "(string \<Rightarrow> float64 option) \<Rightarrow> (float64 \<Rightarrow> string) \<Rightarrow> VersionsTable \<Rightarrow> string" where
  "getHighestVersion ParseFloat Sprintf Versions =
     Sprintf (highestLoop ParseFloat (Finite 0) (map fst Versions))"

definition getAllVersions :: "Unicode \<Rightarrow> VersionsTable \<Rightarrow> string list" where
  "getAllVersions U Versions = map (\<lambda>(versionNo, _). TrimSpace U versionNo) Versions"

fun isMethodAllowed :: "Unicode \<Rightarrow> VersionsTable \<Rightarrow> string \<Rightarrow> string \<Rightarrow> bool" where
  "isMethodAllowed U [] version requestMethod = False"
| "isMethodAllowed U ((versionNo, AllowedMethods) # rest) version requestMethod =
     (if EqualFold U versionNo version \<and> requestMethod \<in> set AllowedMethods then True
      else isMethodAllowed U rest version requestMethod)"

fun isCompatibleLoop :: "Unicode \<Rightarrow> string list \<Rightarrow> string \<Rightarrow> bool" where
  "isCompatibleLoop U [] requestVersion = False"
| "isCompatibleLoop U (version # rest) requestVersion =
     (if EqualFold U version requestVersion then True
      else isCompatibleLoop U rest requestVersion)"

definition getResponseVersion ::
  "Unicode \<Rightarrow> (string \<Rightarrow> float64 option) \<Rightarrow> (float64 \<Rightarrow> string) \<Rightarrow> VersionsTable
     \<Rightarrow> string \<Rightarrow> string" where
  "getResponseVersion U ParseFloat Sprintf Versions requestVersion =
     (let isCompatible = isCompatibleLoop U (getAllVersions U Versions) requestVersion
      in if isCompatible then requestVersion
         else getHighestVersion ParseFloat Sprintf Versions)"

text \<open>
  \<open>getContentType\<close>. The filesystem collaborator \<open>fs.GetPathType\<close> is a parameter:
  it gives an error or the kind of the path.

  Modelled from the spec: the kinds of path of package \<open>fs\<close>, declared outside the
  source files, are the regular file (\<open>FILE_TYPE_PATH\<close>, as the code names it) and
  the directory.
\<close>

datatype PathType = FILE_TYPE_PATH | FOLDER_TYPE_PATH

definition getContentType ::
  "Unicode \<Rightarrow> (string \<Rightarrow> string + PathType) \<Rightarrow> (string \<rightharpoonup> string)
     \<Rightarrow> (string \<rightharpoonup> string) \<Rightarrow> string \<Rightarrow> string \<times> bool" where
  "getContentType U GetPathType AllowedContentTypes ServerDefaults CompleteFilePath =
     (case GetPathType CompleteFilePath of
        Inr pathType \<Rightarrow>
          (if pathType = FILE_TYPE_PATH
           then (let fileExtension = Ext CompleteFilePath;
                     fileExtension = TrimSpace U fileExtension;
                     fileExtension = ToLower U fileExtension
                 in case AllowedContentTypes fileExtension of
                      Some contentType \<Rightarrow> (contentType, True)
                    | None \<Rightarrow>
                        (TrimSpace U (mapIndex ServerDefaults ''content_type''), True))
           else ([], False))
      | Inl err \<Rightarrow> ([], False))"

section \<open>Requests, responses, the router and the server\<close>

text \<open>
  Modelled from the spec: the types \<open>HttpRequest\<close>, \<open>HttpResponse\<close>, \<open>Route\<close> and
  \<open>Router\<close> are declared outside the source files. A request has a method, a raw path,
  a version and the path segments bound by route matching; a response has a version and
  a status code, which is \<open>None\<close> until \<open>Status\<close> sets it; a route is a static
  mapping of a method and a path prefix to a filesystem path; the router holds the list
  of static routes, in registration order, and the route tree, whose type \<open>'t\<close> is
  left open.
\<close>

record HttpRequest =
  Method :: string
  RawPath :: string
  Version :: string
  Segments :: "(string \<times> string list) list"

record HttpResponse =
  Version :: string
  StatusCode :: "int option"

record Route =
  routeMethod :: string
  pathPrefix :: string
  targetFilesystemPath :: string

record 't Router =
  Routes :: "Route list"
  RouteTree :: 't

datatype Listener = Listener string

record 't HttpServer =
  HostAddress :: string
  PortNumber :: int
  Socket :: "Listener option"
  innerRouter :: "'t Router"

record Conn =
  RemoteAddr :: string

text \<open>
  Modelled from the spec: the status constants, \<open>HttpResponse.initialize\<close> (the response
  is created with the negotiated version) and \<open>HttpResponse.Status\<close> (sets the status
  code) are declared outside the source files.
\<close>

definition StatusMethodNotAllowed :: int where
  "StatusMethodNotAllowed = 405"

definition StatusNotFound :: int where
  "StatusNotFound = 404"

definition initialize :: "string \<Rightarrow> HttpResponse" where
  "initialize version = \<lparr>Version = version, StatusCode = None\<rparr>"

definition Status :: "HttpResponse \<Rightarrow> int \<Rightarrow> HttpResponse" where
  "Status res code = res\<lparr>StatusCode := Some code\<rparr>"

definition newResponse ::
  "Unicode \<Rightarrow> (string \<Rightarrow> float64 option) \<Rightarrow> (float64 \<Rightarrow> string) \<Rightarrow> VersionsTable
     \<Rightarrow> HttpRequest \<Rightarrow> HttpResponse" where
  "newResponse U ParseFloat Sprintf Versions request =
     initialize
       (getResponseVersion U ParseFloat Sprintf Versions (HttpRequest.Version request))"

definition newRouter :: "'t \<Rightarrow> 't Router" where
  "newRouter createTree = \<lparr>Routes = [], RouteTree = createTree\<rparr>"

text \<open>
  \<open>NewServer\<close>. The package variables \<open>SrvLogger\<close> and \<open>ServerInstance\<close> are the
  global state; \<open>ServerInstance\<close> is a pointer, so servers live in a heap (a list, an
  address being an index) and a new server is allocated at the end of it.
  \<open>createTree\<close>, declared outside the source files, is a parameter.
\<close>

datatype Logger = StdoutLogger

record 't Globals =
  SrvLogger :: "Logger option"
  ServerInstance :: "nat option"
  heap :: "'t HttpServer list"

definition NewServer :: "'t \<Rightarrow> 't Globals \<Rightarrow> nat \<times> 't Globals" where
  "NewServer createTree g =
     (let g1 = (if SrvLogger g = None then g\<lparr>SrvLogger := Some StdoutLogger\<rparr> else g)
      in case ServerInstance g1 of
           None \<Rightarrow>
             (let server = \<lparr>HostAddress = [], PortNumber = 0, Socket = None,
                            innerRouter = newRouter createTree\<rparr>;
                  p = length (heap g1)
              in (p, g1\<lparr>ServerInstance := Some p, heap := heap g1 @ [server]\<rparr>))
         | Some p \<Rightarrow> (p, g1))"

section \<open>The server's methods\<close>

text \<open>
  \<open>Static\<close>. \<open>Router.addStaticRoute\<close> is declared outside the source files and is a
  parameter: given the router, the method, the route and the target path it returns
  the error (\<open>None\<close> for nil) and the router as the call leaves it.
\<close>

definition Static ::
  "('t Router \<Rightarrow> string \<Rightarrow> string \<Rightarrow> string \<Rightarrow> string option \<times> 't Router)
     \<Rightarrow> 't HttpServer \<Rightarrow> string \<Rightarrow> string \<Rightarrow> string option \<times> 't HttpServer" where
  "Static addStaticRoute srv route TargetPath =
     (let (err, router1) = addStaticRoute (innerRouter srv) ''GET'' route TargetPath
      in if err \<noteq> None then (err, srv\<lparr>innerRouter := router1\<rparr>)
         else (let (err, router2) = addStaticRoute router1 ''HEAD'' route TargetPath
               in if err \<noteq> None then (err, srv\<lparr>innerRouter := router2\<rparr>)
                  else (None, srv\<lparr>innerRouter := router2\<rparr>)))"

text \<open>
  What the server does is recorded as a list of events, in order. The handlers are
  values of an open type \<open>'h\<close>; calling one is an event.
\<close>

datatype 'h event =
    ReadRequest Conn
  | LogError string
  | LogInfo string
  | CreateResponse HttpResponse
  | CallMatchRoute HttpRequest
  | CallErrorHandler HttpRequest HttpResponse
  | CallHandler 'h HttpRequest HttpResponse
  | CloseConnection Conn
  | Spawn Conn

text \<open>
  \<open>Listen\<close>. \<open>net.Listen\<close> is a parameter (an error message or a listener). The accept
  loop never ends; \<open>acceptLoop\<close> runs it over the outcomes of the calls of \<open>Accept\<close>
  made so far (an error message or a connection), each connection being handed to a
  new goroutine that runs \<open>handleClient\<close>.
\<close>

fun acceptLoop :: "(string + Conn) list \<Rightarrow> 'h event list" where
  "acceptLoop [] = []"
| "acceptLoop (Inl err # rest) =
     LogError (''Error occurred while accepting a new client: '' @ err) # acceptLoop rest"
| "acceptLoop (Inr clientConnection # rest) =
     LogInfo (''A new client - '' @ RemoteAddr clientConnection
                @ '' has connected to the server'')
       # Spawn clientConnection # acceptLoop rest"

definition Listen ::
  "Unicode \<Rightarrow> (string \<rightharpoonup> string) \<Rightarrow> (string \<Rightarrow> string + Listener)
     \<Rightarrow> (string + Conn) list
     \<Rightarrow> 't HttpServer \<Rightarrow> int \<Rightarrow> string \<Rightarrow> 't HttpServer \<times> 'h event list" where
  "Listen U ServerDefaults netListen accepted srv portNumber hostAddress =
     (let srv = (if portNumber = 0 then srv\<lparr>PortNumber := getDefaultPort ServerDefaults\<rparr>
                 else srv\<lparr>PortNumber := portNumber\<rparr>);
          srv = (if hostAddress = []
                 then srv\<lparr>HostAddress := getServerDefaults U ServerDefaults ''hostname''\<rparr>
                 else srv\<lparr>HostAddress := TrimSpace U hostAddress\<rparr>);
          serverAddress = HostAddress srv @ '':'' @ Itoa (PortNumber srv)
      in case netListen serverAddress of
           Inl err \<Rightarrow>
             (srv, [LogError (''Error occurred while setting up listener socket: '' @ err)])
         | Inr server \<Rightarrow>
             (srv\<lparr>Socket := Some server\<rparr>,
              LogInfo (''Web server is listening at http://'' @ serverAddress)
                # acceptLoop accepted))"

text \<open>
  \<open>handleClient\<close>. \<open>HttpRequest.read\<close> and \<open>Router.matchRoute\<close> are declared outside
  the source files and are parameters: \<open>read\<close> gives an error message or the parsed
  request; \<open>matchRoute\<close> gives an error message or the handler, and the request as it
  leaves it. The deferred close of the connection is the last event.
\<close>

definition handleClient ::
  "Unicode \<Rightarrow> (string \<Rightarrow> float64 option) \<Rightarrow> (float64 \<Rightarrow> string) \<Rightarrow> VersionsTable
     \<Rightarrow> (Conn \<Rightarrow> string + HttpRequest)
     \<Rightarrow> ('t Router \<Rightarrow> HttpRequest \<Rightarrow> (string + 'h) \<times> HttpRequest)
     \<Rightarrow> 't HttpServer \<Rightarrow> Conn \<Rightarrow> 'h event list" where
  "handleClient U ParseFloat Sprintf Versions read matchRoute srv ClientConnection =
     ReadRequest ClientConnection #
     (case read ClientConnection of
        Inl err \<Rightarrow> [LogError err]
      | Inr httpRequest \<Rightarrow>
          (let httpResponse = newResponse U ParseFloat Sprintf Versions httpRequest
           in CreateResponse httpResponse #
              (if \<not> isMethodAllowed U Versions (HttpResponse.Version httpResponse)
                       (ToUpper U (TrimSpace U (Method httpRequest)))
               then [CallErrorHandler httpRequest
                       (Status httpResponse StatusMethodNotAllowed)]
               else CallMatchRoute httpRequest #
                    (case matchRoute (innerRouter srv) httpRequest of
                       (Inl err, httpRequest) \<Rightarrow>
                         [LogError err,
                          CallErrorHandler httpRequest (Status httpResponse StatusNotFound)]
                     | (Inr routeHandler, httpRequest) \<Rightarrow>
                         [CallHandler routeHandler httpRequest httpResponse]))))
     @ [CloseConnection ClientConnection]"

section \<open>Instances of the parameters, for worked examples\<close>

text \<open>
  Modelled from the spec: \<open>Router.addStaticRoute\<close> registers a static mapping at the
  end of the list of routes, and fails with a duplicate-route error when the same
  method and route are registered already.
\<close>

definition addStaticRoute ::
  "'t Router \<Rightarrow> string \<Rightarrow> string \<Rightarrow> string \<Rightarrow> string option \<times> 't Router" where
  "addStaticRoute router m route target =
     (if \<exists>r \<in> set (Routes router). routeMethod r = m \<and> pathPrefix r = route
      then (Some ''DuplicateRoute'', router)
      else (None, router\<lparr>Routes := Routes router
              @ [\<lparr>routeMethod = m, pathPrefix = route, targetFilesystemPath = target\<rparr>]\<rparr>))"

text \<open>
  The worked examples hold ASCII strings only, on which the functions on runes are never
  reached; this value of the record stands for them there.
\<close>

definition asciiOnly :: Unicode where
  "asciiOnly =
     \<lparr>TrimFunc = (\<lambda>s. s), TrimRightFunc = (\<lambda>s. s), MapToUpper = (\<lambda>s. s),
      MapToLower = (\<lambda>s. s), FoldRunes = (\<lambda>s t. False)\<rparr>"

text \<open>
  The two functions below stand for \<open>strconv.ParseFloat\<close> and the verb \<open>%.1f\<close> in the
  worked examples. They are defined on version identifiers written as one digit, or as
  one digit, a dot and one digit; any other string is no number for the first. The
  first gives the decimal value itself where the library gives the nearest \<open>float64\<close>;
  on these identifiers the order of the values and what \<open>%.1f\<close> prints are the same.
  They are not used elsewhere.
\<close>

definition parseOneDecimal :: "string \<Rightarrow> float64 option" where
  "parseOneDecimal s =
     (case s of
        [a] \<Rightarrow> (if isDigit a then Some (Finite (of_nat (of_char a - 48))) else None)
      | [a, d, b] \<Rightarrow>
          (if isDigit a \<and> d = CHR ''.'' \<and> isDigit b
           then Some (Finite (of_nat (of_char a - 48) + of_nat (of_char b - 48) / 10))
           else None)
      | _ \<Rightarrow> None)"

definition printOneDecimal :: "float64 \<Rightarrow> string" where
  "printOneDecimal f =
     (case f of
        Finite q \<Rightarrow> (let t = \<lfloor>q * 10\<rfloor> in Itoa (t div 10) @ ''.'' @ Itoa (t mod 10))
      | NaN \<Rightarrow> ''NaN''
      | PosInf \<Rightarrow> ''+Inf''
      | NegInf \<Rightarrow> ''-Inf'')"

text \<open>
  Tables for the worked examples: one of two versions; one whose only key has no
  fractional digit; one whose methods are not in upper case.
\<close>

definition wholeNumberVersions :: VersionsTable where
  "wholeNumberVersions = [(''2'', [''GET'', ''HEAD''])]"

definition mixedCaseVersions :: VersionsTable where
  "mixedCaseVersions = [(''1.1'', [''Get'', ''Head''])]"

definition exampleVersions :: VersionsTable where
  "exampleVersions =
     [(''1.0'', [''GET'', ''HEAD'', ''POST'']),
      (''1.1'', [''GET'', ''HEAD'', ''POST'', ''PUT''])]"

text \<open>Defaults, a content-type table and a fresh server for the worked examples.\<close>

definition exampleDefaults :: "string \<rightharpoonup> string" where
  "exampleDefaults =
     [''port'' \<mapsto> ''8080'', ''hostname'' \<mapsto> ''localhost'',
      ''content_type'' \<mapsto> '' application/octet-stream '']"

definition exampleContentTypes :: "string \<rightharpoonup> string" where
  "exampleContentTypes = [''.pdf'' \<mapsto> ''application/pdf'', ''.html'' \<mapsto> ''text/html'']"

definition exampleServer :: "unit HttpServer" where
  "exampleServer =
     \<lparr>HostAddress = [], PortNumber = 0, Socket = None, innerRouter = newRouter ()\<rparr>"

text \<open>The global state at program start, and two routers, for the worked examples.\<close>

definition initialGlobals :: "unit Globals" where
  "initialGlobals = \<lparr>SrvLogger = None, ServerInstance = None, heap = []\<rparr>"

definition filesRoutes :: "Route list" where
  "filesRoutes =
     [\<lparr>routeMethod = ''GET'', pathPrefix = ''/files'', targetFilesystemPath = ''/srv/files''\<rparr>,
      \<lparr>routeMethod = ''HEAD'', pathPrefix = ''/files'', targetFilesystemPath = ''/srv/files''\<rparr>]"

text \<open>
  A connection, requests, the two outcomes of \<open>read\<close> (a parsed request; an error) and
  two outcomes of route matching (no route; a route with handler 7 that binds the segment
  \<open>name\<close>), for the worked examples. Handlers are numbered.
\<close>

definition exampleConn :: Conn where
  "exampleConn = \<lparr>RemoteAddr = ''10.0.0.7:51000''\<rparr>"

definition request :: "string \<Rightarrow> string \<Rightarrow> string \<Rightarrow> HttpRequest" where
  "request m path version = \<lparr>Method = m, RawPath = path, Version = version, Segments = []\<rparr>"

definition parsed :: "HttpRequest \<Rightarrow> Conn \<Rightarrow> string + HttpRequest" where
  "parsed req c = Inr req"

definition unparsable :: "string \<Rightarrow> Conn \<Rightarrow> string + HttpRequest" where
  "unparsable err c = Inl err"

definition noRoute :: "unit Router \<Rightarrow> HttpRequest \<Rightarrow> (string + nat) \<times> HttpRequest" where
  "noRoute router req = (Inl ''RouteNotFound'', req)"

definition userRoute :: "unit Router \<Rightarrow> HttpRequest \<Rightarrow> (string + nat) \<times> HttpRequest" where
  "userRoute router req = (Inr 7, req\<lparr>Segments := [(''name'', [''alice''])]\<rparr>)"

text \<open>The events of a run that read a request, that close a connection, that start a handler.\<close>

fun isReadRequest :: "'h event \<Rightarrow> bool" where
  "isReadRequest (ReadRequest c) = True"
| "isReadRequest e = False"

fun isCloseConnection :: "'h event \<Rightarrow> bool" where
  "isCloseConnection (CloseConnection c) = True"
| "isCloseConnection e = False"

fun spawned :: "'h event list \<Rightarrow> Conn list" where
  "spawned [] = []"
| "spawned (Spawn c # es) = c # spawned es"
| "spawned (e # es) = spawned es"

fun connections :: "(string + Conn) list \<Rightarrow> Conn list" where
  "connections [] = []"
| "connections (Inr c # rest) = c # connections rest"
| "connections (Inl err # rest) = connections rest"

section \<open>Properties: version negotiation\<close>

lemma f64_gt_irrefl: "\<not> f64_gt a a"
  by (cases a) auto

lemma f64_gt_trans: "f64_gt a b \<Longrightarrow> f64_gt b c \<Longrightarrow> f64_gt a c"
  by (cases a; cases b; cases c) auto

lemma isCompatibleLoop_iff:
  "isCompatibleLoop U vs rv = (\<exists>v\<in>set vs. EqualFold U v rv)"
  by (induction vs) auto

lemma highestLoop_mono: "\<not> f64_gt x m \<Longrightarrow> \<not> f64_gt x (highestLoop P m ks)"
proof (induction ks arbitrary: m)
  case Nil then show ?case by simp
next
  case (Cons k ks)
  show ?case
  proof (cases "P k")
    case None with Cons show ?thesis by simp
  next
    case (Some c)
    show ?thesis
    proof (cases "f64_gt c m")
      case True
      have "\<not> f64_gt x c" using Cons.prems True f64_gt_trans by blast
      then show ?thesis using Some True Cons.IH by simp
    next
      case False then show ?thesis using Some Cons by simp
    qed
  qed
qed

lemma highestLoop_upper: "k \<in> set ks \<Longrightarrow> P k = Some f \<Longrightarrow> \<not> f64_gt f (highestLoop P m ks)"
proof (induction ks arbitrary: m)
  case Nil then show ?case by simp
next
  case (Cons a ks)
  show ?case
  proof (cases "k = a")
    case True
    then have Pa: "P a = Some f" using Cons.prems by simp
    show ?thesis
    proof (cases "f64_gt f m")
      case True
      then show ?thesis using Pa highestLoop_mono[OF f64_gt_irrefl, of f P ks] by simp
    next
      case False
      then show ?thesis using Pa highestLoop_mono[of f m P ks] by simp
    qed
  next
    case False
    then have "k \<in> set ks" using Cons.prems by simp
    then show ?thesis using Cons.IH Cons.prems(2) by (simp split: option.splits)
  qed
qed

lemma highestLoop_cases:
  "highestLoop P m ks = m \<or>
   (\<exists>k\<in>set ks. P k = Some (highestLoop P m ks) \<and> f64_gt (highestLoop P m ks) m)"
proof (induction ks arbitrary: m)
  case Nil then show ?case by simp
next
  case (Cons a ks)
  show ?case
  proof (cases "P a")
    case None then show ?thesis using Cons.IH[of m] by auto
  next
    case (Some c)
    show ?thesis
    proof (cases "f64_gt c m")
      case True
      then show ?thesis using Some Cons.IH[of c] f64_gt_trans[of _ c m] by auto
    next
      case False then show ?thesis using Some Cons.IH[of m] by auto
    qed
  qed
qed

lemma getResponseVersion_compatible:
  "\<exists>v \<in> set (getAllVersions U Versions). EqualFold U v requestVersion \<Longrightarrow>
   getResponseVersion U ParseFloat Sprintf Versions requestVersion = requestVersion"
  by (simp add: getResponseVersion_def isCompatibleLoop_iff)

lemma getResponseVersion_incompatible:
  "\<not> (\<exists>v \<in> set (getAllVersions U Versions). EqualFold U v requestVersion) \<Longrightarrow>
   getResponseVersion U ParseFloat Sprintf Versions requestVersion =
     Sprintf (highestLoop ParseFloat (Finite 0) (map fst Versions))"
  by (simp add: getResponseVersion_def isCompatibleLoop_iff getHighestVersion_def)

lemma getAllVersions_compatible_iff:
  "(\<exists>v \<in> set (getAllVersions U Versions). EqualFold U v requestVersion) =
   (\<exists>(versionNo, AllowedMethods) \<in> set Versions.
      EqualFold U (TrimSpace U versionNo) requestVersion)"
  by (induction Versions) (auto simp: getAllVersions_def)

lemma example_parse:
  "parseOneDecimal ''1.0'' = Some (Finite 1)"
  "parseOneDecimal ''1.1'' = Some (Finite (11/10))"
  "parseOneDecimal ''2'' = Some (Finite 2)"
  by (simp_all add: parseOneDecimal_def isDigit_def)

lemma example_print:
  "printOneDecimal (Finite 1) = ''1.0''"
  "printOneDecimal (Finite (11/10)) = ''1.1''"
  "printOneDecimal (Finite 2) = ''2.0''"
  by code_simp+

lemma example_incompatible:
  "\<not> (\<exists>(versionNo, AllowedMethods) \<in> set exampleVersions.
        EqualFold asciiOnly (TrimSpace asciiOnly versionNo) ''2.0'')"
  "\<not> (\<exists>(versionNo, AllowedMethods) \<in> set wholeNumberVersions.
        EqualFold asciiOnly (TrimSpace asciiOnly versionNo) ''3'')"
  by code_simp+

lemma example_compatible:
  "\<exists>(versionNo, AllowedMethods) \<in> set exampleVersions.
     EqualFold asciiOnly (TrimSpace asciiOnly versionNo) ''1.1''"
  by code_simp

text \<open>
  Claim C1, as stated, fails. The only supported identifier of the table is \<open>2\<close>, the
  request version \<open>3\<close> does not equal it, and the response version is \<open>2.0\<close>, the
  value 2 as \<open>%.1f\<close> prints it, which is not a supported identifier.
\<close>

theorem getResponseVersion_whole_number_counterexample:
  "map fst wholeNumberVersions = [''2''] \<and>
   \<not> EqualFold asciiOnly ''2'' ''3'' \<and>
   getResponseVersion asciiOnly parseOneDecimal printOneDecimal wholeNumberVersions ''3''
     = ''2.0''"
proof -
  have "highestLoop parseOneDecimal (Finite 0) (map fst wholeNumberVersions) = Finite 2"
    by (simp add: wholeNumberVersions_def example_parse)
  then have "getResponseVersion asciiOnly parseOneDecimal printOneDecimal wholeNumberVersions
      ''3'' = ''2.0''"
    using example_incompatible(2)
    by (simp add: getResponseVersion_incompatible getAllVersions_compatible_iff example_print)
  moreover have "\<not> EqualFold asciiOnly ''2'' ''3''"
    by (simp add: isASCII_def foldPair_def)
  ultimately show ?thesis
    by (simp add: wholeNumberVersions_def)
qed

text \<open>
  Claim C1, amended. For every request version: if it equals, up to letter case, a key of
  \<open>Versions\<close> with its surrounding white space trimmed, the response version is the
  request version unchanged. Otherwise the response version is what \<open>%.1f\<close> prints for
  a value \<open>m\<close>, where \<open>m\<close> is 0 or the value of a key that parses and is greater than 0,
  and no key that parses has a value greater than \<open>m\<close>. So it is the greatest supported
  identifier itself when that identifier is greater than 0 and is written the way
  \<open>%.1f\<close> prints its value.
\<close>

theorem getResponseVersion_negotiated:
  "if \<exists>(versionNo, AllowedMethods) \<in> set Versions.
        EqualFold U (TrimSpace U versionNo) requestVersion
   then getResponseVersion U ParseFloat Sprintf Versions requestVersion = requestVersion
   else \<exists>m. getResponseVersion U ParseFloat Sprintf Versions requestVersion = Sprintf m \<and>
            (m = Finite 0 \<or>
             (\<exists>k \<in> set (map fst Versions). ParseFloat k = Some m \<and> f64_gt m (Finite 0))) \<and>
            (\<forall>k \<in> set (map fst Versions). \<forall>f. ParseFloat k = Some f \<longrightarrow> \<not> f64_gt f m)"
proof (cases "\<exists>(versionNo, AllowedMethods) \<in> set Versions.
                EqualFold U (TrimSpace U versionNo) requestVersion")
  case True
  then have "\<exists>v \<in> set (getAllVersions U Versions). EqualFold U v requestVersion"
    unfolding getAllVersions_compatible_iff .
  then show ?thesis
    using True getResponseVersion_compatible by simp
next
  case False
  let ?m = "highestLoop ParseFloat (Finite 0) (map fst Versions)"
  from False have "\<not> (\<exists>v \<in> set (getAllVersions U Versions). EqualFold U v requestVersion)"
    unfolding getAllVersions_compatible_iff .
  then have printed: "getResponseVersion U ParseFloat Sprintf Versions requestVersion = Sprintf ?m"
    by (rule getResponseVersion_incompatible)
  have origin: "?m = Finite 0 \<or>
      (\<exists>k \<in> set (map fst Versions). ParseFloat k = Some ?m \<and> f64_gt ?m (Finite 0))"
    by (rule highestLoop_cases)
  have greatest: "\<forall>k \<in> set (map fst Versions). \<forall>f. ParseFloat k = Some f \<longrightarrow> \<not> f64_gt f ?m"
    using highestLoop_upper by blast
  from printed origin greatest
  have "\<exists>m. getResponseVersion U ParseFloat Sprintf Versions requestVersion = Sprintf m \<and>
            (m = Finite 0 \<or>
             (\<exists>k \<in> set (map fst Versions). ParseFloat k = Some m \<and> f64_gt m (Finite 0))) \<and>
            (\<forall>k \<in> set (map fst Versions). \<forall>f. ParseFloat k = Some f \<longrightarrow> \<not> f64_gt f m)"
    by blast
  then show ?thesis
    using False by simp
qed

text \<open>
  On the table of two versions, \<open>1.1\<close> is echoed and the unsupported \<open>2.0\<close> is
  answered with \<open>1.1\<close>: of the parsed values, 0 and 1 are each exceeded by another.
\<close>

theorem getResponseVersion_negotiated_witness:
  "getResponseVersion asciiOnly parseOneDecimal printOneDecimal exampleVersions ''1.1'' = ''1.1'' \<and>
   getResponseVersion asciiOnly parseOneDecimal printOneDecimal exampleVersions ''2.0'' = ''1.1''"
proof -
  have keys: "set (map fst exampleVersions) = {''1.0'', ''1.1''}"
    by (simp add: exampleVersions_def)
  let ?r = "getResponseVersion asciiOnly parseOneDecimal printOneDecimal exampleVersions ''2.0''"
  have echo:
    "getResponseVersion asciiOnly parseOneDecimal printOneDecimal exampleVersions ''1.1'' = ''1.1''"
    using getResponseVersion_negotiated
      [of exampleVersions asciiOnly "''1.1''" parseOneDecimal printOneDecimal]
      example_compatible
    by simp
  have "\<exists>m. ?r = printOneDecimal m \<and>
          (m = Finite 0 \<or>
           (\<exists>k \<in> set (map fst exampleVersions).
              parseOneDecimal k = Some m \<and> f64_gt m (Finite 0))) \<and>
          (\<forall>k \<in> set (map fst exampleVersions). \<forall>f. parseOneDecimal k = Some f
             \<longrightarrow> \<not> f64_gt f m)"
    using getResponseVersion_negotiated
      [of exampleVersions asciiOnly "''2.0''" parseOneDecimal printOneDecimal]
      example_incompatible(1)
    by simp
  then obtain m where m: "?r = printOneDecimal m"
      "m = Finite 0 \<or> (\<exists>k \<in> set (map fst exampleVersions).
              parseOneDecimal k = Some m \<and> f64_gt m (Finite 0))"
      "\<forall>k \<in> set (map fst exampleVersions). \<forall>f. parseOneDecimal k = Some f
             \<longrightarrow> \<not> f64_gt f m"
    by blast
  have above: "\<not> f64_gt (Finite (11/10)) m"
    using m(3) example_parse(2) unfolding keys by simp
  have "m = Finite 1 \<or> m = Finite (11/10) \<or> m = Finite 0"
    using m(2) example_parse unfolding keys by auto
  then have "m = Finite (11/10)"
    using above by auto
  then have "?r = ''1.1''"
    using m(1) example_print(2) by simp
  then show ?thesis
    using echo by simp
qed

section \<open>Properties: listening address and content types\<close>

lemma TrimSpace_keys:
  "TrimSpace U ''hostname'' = ''hostname''"
  "TrimSpace U ''content_type'' = ''content_type''"
  by code_simp+

lemma getServerDefaults_entry:
  "getServerDefaults U ServerDefaults ''hostname''
     = TrimSpace U (mapIndex ServerDefaults ''hostname'')"
  "getServerDefaults U ServerDefaults ''content_type''
     = TrimSpace U (mapIndex ServerDefaults ''content_type'')"
  by (simp_all add: getServerDefaults_def TrimSpace_keys)

text \<open>
  Claim C10. After every call of \<open>Listen\<close>, whether or not the listener can be set up:
  the port of the server is the configured default port, which is what \<open>Atoi\<close> reads
  from the entry \<open>port\<close> of the defaults, when the port argument is 0, and the argument
  otherwise; the host is the configured default hostname, which is the entry
  \<open>hostname\<close> of the defaults without its surrounding white space, when the host
  argument is empty, and the argument without its surrounding white space otherwise.
\<close>

theorem Listen_sets_port_and_host:
  "PortNumber (fst (Listen U ServerDefaults netListen accepted srv portNumber hostAddress))
     = (if portNumber = 0 then fst (Atoi (mapIndex ServerDefaults ''port'')) else portNumber) \<and>
   HostAddress (fst (Listen U ServerDefaults netListen accepted srv portNumber hostAddress))
     = (if hostAddress = [] then TrimSpace U (mapIndex ServerDefaults ''hostname'')
        else TrimSpace U hostAddress)"
proof -
  have port: "getDefaultPort ServerDefaults = fst (Atoi (mapIndex ServerDefaults ''port''))"
    by (simp add: getDefaultPort_def Let_def split: prod.splits)
  show ?thesis
    by (simp add: Listen_def Let_def port getServerDefaults_entry split: sum.splits)
qed

lemma exampleDefaults_entries:
  "fst (Atoi (mapIndex exampleDefaults ''port'')) = 8080"
  "TrimSpace asciiOnly (mapIndex exampleDefaults ''hostname'') = ''localhost''"
  "TrimSpace asciiOnly (mapIndex exampleDefaults ''content_type'') = ''application/octet-stream''"
  "TrimSpace asciiOnly '' 127.0.0.1 '' = ''127.0.0.1''"
  by code_simp+

text \<open>
  With defaults of port 8080 and host \<open>localhost\<close>: the defaults are taken for 0 and
  the empty host, and the given port and trimmed host otherwise.
\<close>

theorem Listen_sets_port_and_host_witness:
  "PortNumber (fst (Listen asciiOnly exampleDefaults (\<lambda>a. Inl ''address in use'') []
      exampleServer 0 [] :: unit HttpServer \<times> unit event list)) = 8080 \<and>
   HostAddress (fst (Listen asciiOnly exampleDefaults (\<lambda>a. Inl ''address in use'') []
      exampleServer 0 [] :: unit HttpServer \<times> unit event list)) = ''localhost'' \<and>
   PortNumber (fst (Listen asciiOnly exampleDefaults (\<lambda>a. Inr (Listener a)) [] exampleServer
      9090 '' 127.0.0.1 '' :: unit HttpServer \<times> unit event list)) = 9090 \<and>
   HostAddress (fst (Listen asciiOnly exampleDefaults (\<lambda>a. Inr (Listener a)) [] exampleServer
      9090 '' 127.0.0.1 '' :: unit HttpServer \<times> unit event list)) = ''127.0.0.1''"
proof -
  let ?byDefault = "Listen asciiOnly exampleDefaults (\<lambda>a. Inl ''address in use'') []
      exampleServer 0 [] :: unit HttpServer \<times> unit event list"
  let ?given = "Listen asciiOnly exampleDefaults (\<lambda>a. Inr (Listener a)) [] exampleServer 9090
      '' 127.0.0.1 '' :: unit HttpServer \<times> unit event list"
  have "PortNumber (fst ?byDefault)
          = (if (0::int) = 0 then fst (Atoi (mapIndex exampleDefaults ''port'')) else 0) \<and>
        HostAddress (fst ?byDefault)
          = (if ([]::string) = [] then TrimSpace asciiOnly (mapIndex exampleDefaults ''hostname'')
             else TrimSpace asciiOnly [])"
    by (rule Listen_sets_port_and_host)
  moreover
  have "PortNumber (fst ?given)
          = (if (9090::int) = 0 then fst (Atoi (mapIndex exampleDefaults ''port'')) else 9090) \<and>
        HostAddress (fst ?given)
          = (if '' 127.0.0.1 '' = [] then TrimSpace asciiOnly (mapIndex exampleDefaults ''hostname'')
             else TrimSpace asciiOnly '' 127.0.0.1 '')"
    by (rule Listen_sets_port_and_host)
  ultimately show ?thesis
    by (simp add: exampleDefaults_entries)
qed

text \<open>
  Claim C5. For a path that the filesystem reports as a regular file, the content type
  is the entry of the content-type table at the extension of the path, trimmed and in
  lower case, when there is one, and the configured default otherwise, which is the entry
  \<open>content_type\<close> of the defaults without its surrounding white space; the second
  component reports success in both cases.
\<close>

theorem getContentType_regular_file:
  assumes "GetPathType CompleteFilePath = Inr FILE_TYPE_PATH"
  shows "getContentType U GetPathType AllowedContentTypes ServerDefaults CompleteFilePath =
           (case AllowedContentTypes (ToLower U (TrimSpace U (Ext CompleteFilePath))) of
              Some contentType \<Rightarrow> (contentType, True)
            | None \<Rightarrow> (TrimSpace U (mapIndex ServerDefaults ''content_type''), True))"
  using assms
  by (simp add: getContentType_def Let_def split: option.splits)

lemma example_extensions:
  "ToLower asciiOnly (TrimSpace asciiOnly (Ext ''/srv/files/report.PDF'')) = ''.pdf''"
  "ToLower asciiOnly (TrimSpace asciiOnly (Ext ''/srv/files/unknown.xyz'')) = ''.xyz''"
  by code_simp+

text \<open>
  A file \<open>report.PDF\<close> gets the entry of \<open>.pdf\<close>; a file with the unknown
  extension \<open>.xyz\<close> gets the default.
\<close>

theorem getContentType_regular_file_witness:
  "getContentType asciiOnly (\<lambda>p. Inr FILE_TYPE_PATH) exampleContentTypes exampleDefaults
     ''/srv/files/report.PDF'' = (''application/pdf'', True) \<and>
   getContentType asciiOnly (\<lambda>p. Inr FILE_TYPE_PATH) exampleContentTypes exampleDefaults
     ''/srv/files/unknown.xyz'' = (''application/octet-stream'', True)"
proof -
  have pdf: "exampleContentTypes ''.pdf'' = Some ''application/pdf''"
    by (simp add: exampleContentTypes_def)
  have xyz: "exampleContentTypes ''.xyz'' = None"
    by (simp add: exampleContentTypes_def)
  show ?thesis
    using getContentType_regular_file [where GetPathType = "\<lambda>p. Inr FILE_TYPE_PATH"
        and CompleteFilePath = "''/srv/files/report.PDF''" and U = asciiOnly
        and AllowedContentTypes = exampleContentTypes and ServerDefaults = exampleDefaults]
      getContentType_regular_file [where GetPathType = "\<lambda>p. Inr FILE_TYPE_PATH"
        and CompleteFilePath = "''/srv/files/unknown.xyz''" and U = asciiOnly
        and AllowedContentTypes = exampleContentTypes and ServerDefaults = exampleDefaults]
    by (simp add: example_extensions exampleDefaults_entries pdf xyz)
qed

section \<open>Properties: the server instance and static routes\<close>

lemma NewServer_first:
  assumes "ServerInstance g = None"
  shows "NewServer createTree g =
           (length (heap g),
            g\<lparr>SrvLogger := Some (case SrvLogger g of None \<Rightarrow> StdoutLogger | Some l \<Rightarrow> l),
              ServerInstance := Some (length (heap g)),
              heap := heap g @ [\<lparr>HostAddress = [], PortNumber = 0, Socket = None,
                                innerRouter = newRouter createTree\<rparr>]\<rparr>)"
  using assms by (cases "SrvLogger g") (simp_all add: NewServer_def Let_def)

lemma NewServer_again:
  assumes "ServerInstance g = Some p"
  shows "fst (NewServer createTree g) = p \<and>
         ServerInstance (snd (NewServer createTree g)) = Some p \<and>
         heap (snd (NewServer createTree g)) = heap g"
  using assms by (simp add: NewServer_def Let_def)

lemma NewServer_fixed:
  assumes "ServerInstance g = Some p" and "SrvLogger g \<noteq> None"
  shows "NewServer createTree g = (p, g)"
  using assms by (auto simp: NewServer_def Let_def)

lemma NewServer_establishes:
  "ServerInstance (snd (NewServer createTree g)) = Some (fst (NewServer createTree g)) \<and>
   SrvLogger (snd (NewServer createTree g)) \<noteq> None"
  by (cases "ServerInstance g"; cases "SrvLogger g") (simp_all add: NewServer_def Let_def)

text \<open>
  Claim C6. When no instance exists, \<open>NewServer\<close> allocates a server with an empty
  router at a new address, without touching the servers that exist, and records the
  address in \<open>ServerInstance\<close>; when an instance exists, \<open>NewServer\<close> returns its
  address and leaves the instance pointer and the heap as they are; and a call that
  follows a call returns the same address and changes nothing.
\<close>

theorem NewServer_singleton:
  "(ServerInstance g = None \<longrightarrow>
      fst (NewServer createTree g) = length (heap g) \<and>
      heap (snd (NewServer createTree g))
        = heap g @ [\<lparr>HostAddress = [], PortNumber = 0, Socket = None,
                      innerRouter = \<lparr>Routes = [], RouteTree = createTree\<rparr>\<rparr>] \<and>
      ServerInstance (snd (NewServer createTree g)) = Some (length (heap g))) \<and>
   (\<forall>p. ServerInstance g = Some p \<longrightarrow>
      fst (NewServer createTree g) = p \<and>
      ServerInstance (snd (NewServer createTree g)) = Some p \<and>
      heap (snd (NewServer createTree g)) = heap g) \<and>
   NewServer createTree (snd (NewServer createTree g))
     = (fst (NewServer createTree g), snd (NewServer createTree g))"
proof (intro conjI impI allI)
  assume "ServerInstance g = None"
  then show "fst (NewServer createTree g) = length (heap g)"
    and "heap (snd (NewServer createTree g))
        = heap g @ [\<lparr>HostAddress = [], PortNumber = 0, Socket = None,
                      innerRouter = \<lparr>Routes = [], RouteTree = createTree\<rparr>\<rparr>]"
    and "ServerInstance (snd (NewServer createTree g)) = Some (length (heap g))"
    by (simp_all add: NewServer_first newRouter_def)
next
  fix p assume "ServerInstance g = Some p"
  then show "fst (NewServer createTree g) = p"
    and "ServerInstance (snd (NewServer createTree g)) = Some p"
    and "heap (snd (NewServer createTree g)) = heap g"
    by (simp_all add: NewServer_again)
next
  show "NewServer createTree (snd (NewServer createTree g))
     = (fst (NewServer createTree g), snd (NewServer createTree g))"
    by (rule NewServer_fixed) (simp_all add: NewServer_establishes)
qed

text \<open>From the initial state, the first and the second call both return address 0.\<close>

theorem NewServer_singleton_witness:
  "fst (NewServer () initialGlobals) = 0 \<and>
   heap (snd (NewServer () initialGlobals))
     = [\<lparr>HostAddress = [], PortNumber = 0, Socket = None,
         innerRouter = \<lparr>Routes = [], RouteTree = ()\<rparr>\<rparr>] \<and>
   fst (NewServer () (snd (NewServer () initialGlobals))) = 0 \<and>
   snd (NewServer () (snd (NewServer () initialGlobals))) = snd (NewServer () initialGlobals)"
proof -
  have nil: "ServerInstance initialGlobals = None" "heap initialGlobals = []"
    by (simp_all add: initialGlobals_def)
  show ?thesis
    using NewServer_singleton [of initialGlobals "()"] nil by simp
qed

text \<open>
  Claim C8. Whatever \<open>addStaticRoute\<close> does (\<open>register\<close> below): when the
  registration under \<open>GET\<close> fails, \<open>Static\<close> returns its error and the router is as
  that one call left it, so no second registration has taken place; when it succeeds,
  \<open>Static\<close> goes on to register the same route and the same target under \<open>HEAD\<close>,
  on the router that the first registration left, and returns what that gives.
\<close>

theorem Static_registers_GET_then_HEAD:
  "(\<forall>e router1. register (innerRouter srv) ''GET'' route TargetPath = (Some e, router1) \<longrightarrow>
      Static register srv route TargetPath = (Some e, srv\<lparr>innerRouter := router1\<rparr>)) \<and>
   (\<forall>router1. register (innerRouter srv) ''GET'' route TargetPath = (None, router1) \<longrightarrow>
      Static register srv route TargetPath
        = (fst (register router1 ''HEAD'' route TargetPath),
           srv\<lparr>innerRouter := snd (register router1 ''HEAD'' route TargetPath)\<rparr>))"
  by (auto simp: Static_def Let_def split: prod.splits)

text \<open>
  With the registration of the spec: on a fresh server one call registers the route
  under \<open>GET\<close> and \<open>HEAD\<close> with the same target; a second call fails at \<open>GET\<close> with
  the duplicate-route error and adds nothing.
\<close>

theorem Static_registers_GET_then_HEAD_witness:
  "Static addStaticRoute exampleServer ''/files'' ''/srv/files''
     = (None, exampleServer\<lparr>innerRouter := \<lparr>Routes = filesRoutes, RouteTree = ()\<rparr>\<rparr>) \<and>
   Static addStaticRoute (exampleServer\<lparr>innerRouter := \<lparr>Routes = filesRoutes, RouteTree = ()\<rparr>\<rparr>)
       ''/files'' ''/srv/files''
     = (Some ''DuplicateRoute'',
        exampleServer\<lparr>innerRouter := \<lparr>Routes = filesRoutes, RouteTree = ()\<rparr>\<rparr>)"
proof -
  let ?get = "\<lparr>routeMethod = ''GET'', pathPrefix = ''/files'',
                targetFilesystemPath = ''/srv/files''\<rparr>"
  have fresh: "addStaticRoute (innerRouter exampleServer) ''GET'' ''/files'' ''/srv/files''
                 = (None, \<lparr>Routes = [?get], RouteTree = ()\<rparr>)"
    by (simp add: addStaticRoute_def exampleServer_def newRouter_def)
  have head: "addStaticRoute \<lparr>Routes = [?get], RouteTree = ()\<rparr> ''HEAD'' ''/files'' ''/srv/files''
                = (None, \<lparr>Routes = filesRoutes, RouteTree = ()\<rparr>)"
    by (simp add: addStaticRoute_def filesRoutes_def)
  have dup: "addStaticRoute \<lparr>Routes = filesRoutes, RouteTree = ()\<rparr> ''GET'' ''/files'' ''/srv/files''
               = (Some ''DuplicateRoute'', \<lparr>Routes = filesRoutes, RouteTree = ()\<rparr>)"
    by (simp add: addStaticRoute_def filesRoutes_def)
  show ?thesis
    using Static_registers_GET_then_HEAD [of addStaticRoute exampleServer "''/files''" "''/srv/files''"]
      Static_registers_GET_then_HEAD [of addStaticRoute
        "exampleServer\<lparr>innerRouter := \<lparr>Routes = filesRoutes, RouteTree = ()\<rparr>\<rparr>"
        "''/files''" "''/srv/files''"]
    by (simp add: fresh head dup)
qed

section \<open>Properties: the connection handler\<close>

lemma isMethodAllowed_iff:
  "isMethodAllowed U Versions version requestMethod =
     (\<exists>(versionNo, AllowedMethods) \<in> set Versions.
        EqualFold U versionNo version \<and> requestMethod \<in> set AllowedMethods)"
  by (induction Versions) auto

lemma handleClient_read_error:
  "read ClientConnection = Inl err \<Longrightarrow>
   handleClient U ParseFloat Sprintf Versions read matchRoute srv ClientConnection
     = [ReadRequest ClientConnection, LogError err, CloseConnection ClientConnection]"
  by (simp add: handleClient_def)

lemma handleClient_refused:
  "read ClientConnection = Inr httpRequest \<Longrightarrow>
   \<not> isMethodAllowed U Versions
        (getResponseVersion U ParseFloat Sprintf Versions (HttpRequest.Version httpRequest))
        (ToUpper U (TrimSpace U (Method httpRequest))) \<Longrightarrow>
   handleClient U ParseFloat Sprintf Versions read matchRoute srv ClientConnection
     = [ReadRequest ClientConnection,
        CreateResponse \<lparr>Version = getResponseVersion U ParseFloat Sprintf Versions
                                    (HttpRequest.Version httpRequest),
                        StatusCode = None\<rparr>,
        CallErrorHandler httpRequest
          \<lparr>Version = getResponseVersion U ParseFloat Sprintf Versions
                        (HttpRequest.Version httpRequest),
            StatusCode = Some 405\<rparr>,
        CloseConnection ClientConnection]"
  by (simp add: handleClient_def newResponse_def initialize_def Status_def
      StatusMethodNotAllowed_def Let_def)

lemma handleClient_routed:
  "read ClientConnection = Inr httpRequest \<Longrightarrow>
   isMethodAllowed U Versions
        (getResponseVersion U ParseFloat Sprintf Versions (HttpRequest.Version httpRequest))
        (ToUpper U (TrimSpace U (Method httpRequest))) \<Longrightarrow>
   handleClient U ParseFloat Sprintf Versions read matchRoute srv ClientConnection
     = ReadRequest ClientConnection #
       CreateResponse \<lparr>Version = getResponseVersion U ParseFloat Sprintf Versions
                                    (HttpRequest.Version httpRequest),
                        StatusCode = None\<rparr> #
       CallMatchRoute httpRequest #
       (case matchRoute (innerRouter srv) httpRequest of
          (Inl err, matched) \<Rightarrow>
            [LogError err,
             CallErrorHandler matched
               \<lparr>Version = getResponseVersion U ParseFloat Sprintf Versions
                             (HttpRequest.Version httpRequest),
                 StatusCode = Some 404\<rparr>]
        | (Inr routeHandler, matched) \<Rightarrow>
            [CallHandler routeHandler matched
               \<lparr>Version = getResponseVersion U ParseFloat Sprintf Versions
                             (HttpRequest.Version httpRequest),
                 StatusCode = None\<rparr>])
       @ [CloseConnection ClientConnection]"
  by (simp add: handleClient_def newResponse_def initialize_def Status_def
      StatusNotFound_def Let_def split: prod.splits sum.splits)

lemma example_negotiated_version:
  "getResponseVersion asciiOnly parseOneDecimal printOneDecimal exampleVersions ''1.1'' = ''1.1''"
  by code_simp

lemma example_normalised_methods:
  "ToUpper asciiOnly (TrimSpace asciiOnly ''get'') = ''GET''"
  "ToUpper asciiOnly (TrimSpace asciiOnly '' get '') = ''GET''"
  "ToUpper asciiOnly (TrimSpace asciiOnly ''GET'') = ''GET''"
  "ToUpper asciiOnly (TrimSpace asciiOnly ''DELETE'') = ''DELETE''"
  by code_simp+

lemma example_allowed_methods:
  "isMethodAllowed asciiOnly exampleVersions ''1.1'' ''GET''"
  "\<not> isMethodAllowed asciiOnly exampleVersions ''1.1'' ''get''"
  "\<not> isMethodAllowed asciiOnly exampleVersions ''1.1'' ''DELETE''"
  by code_simp+

text \<open>
  Claim C4. When \<open>read\<close> returns an error, the handler logs it and closes the
  connection, and does nothing else: no response is created and no handler, which alone
  could write to the connection, is called.
\<close>

theorem handleClient_parse_failure:
  assumes "read ClientConnection = Inl err"
  shows "handleClient U ParseFloat Sprintf Versions read matchRoute srv ClientConnection
           = [ReadRequest ClientConnection, LogError err, CloseConnection ClientConnection]"
  using assms by (rule handleClient_read_error)

theorem handleClient_parse_failure_witness:
  "handleClient asciiOnly parseOneDecimal printOneDecimal exampleVersions
     (unparsable ''malformed request line'') noRoute exampleServer exampleConn
   = [ReadRequest exampleConn, LogError ''malformed request line'',
      CloseConnection exampleConn]"
  using handleClient_parse_failure [where U = asciiOnly and read = "unparsable ''malformed request line''"
      and ClientConnection = exampleConn and err = "''malformed request line''"]
  by (simp add: unparsable_def)

text \<open>
  Claim C2, as stated, fails. The request method \<open>get\<close> is not among the methods of
  the table entry for the negotiated version 1.1, yet the handler does not answer 405:
  it tries the routes and, none matching, answers 404.
\<close>

theorem handleClient_lowercase_method_counterexample:
  "getResponseVersion asciiOnly parseOneDecimal printOneDecimal exampleVersions
     (HttpRequest.Version (request ''get'' ''/missing'' ''1.1'')) = ''1.1'' \<and>
   \<not> isMethodAllowed asciiOnly exampleVersions ''1.1'' (Method (request ''get'' ''/missing'' ''1.1'')) \<and>
   handleClient asciiOnly parseOneDecimal printOneDecimal exampleVersions
     (parsed (request ''get'' ''/missing'' ''1.1'')) noRoute exampleServer exampleConn
   = [ReadRequest exampleConn,
      CreateResponse \<lparr>Version = ''1.1'', StatusCode = None\<rparr>,
      CallMatchRoute (request ''get'' ''/missing'' ''1.1''),
      LogError ''RouteNotFound'',
      CallErrorHandler (request ''get'' ''/missing'' ''1.1'')
        \<lparr>Version = ''1.1'', StatusCode = Some 404\<rparr>,
      CloseConnection exampleConn]"
proof -
  let ?req = "request ''get'' ''/missing'' ''1.1''"
  have v: "HttpRequest.Version ?req = ''1.1''" and m: "Method ?req = ''get''"
    by (simp_all add: request_def)
  have allowed: "isMethodAllowed asciiOnly exampleVersions
      (getResponseVersion asciiOnly parseOneDecimal printOneDecimal exampleVersions
         (HttpRequest.Version ?req))
      (ToUpper asciiOnly (TrimSpace asciiOnly (Method ?req)))"
    by (simp add: v m example_negotiated_version example_normalised_methods
        example_allowed_methods)
  have "handleClient asciiOnly parseOneDecimal printOneDecimal exampleVersions (parsed ?req) noRoute
          exampleServer exampleConn
        = [ReadRequest exampleConn,
           CreateResponse \<lparr>Version = ''1.1'', StatusCode = None\<rparr>,
           CallMatchRoute ?req, LogError ''RouteNotFound'',
           CallErrorHandler ?req \<lparr>Version = ''1.1'', StatusCode = Some 404\<rparr>,
           CloseConnection exampleConn]"
    using handleClient_routed [where U = asciiOnly and read = "parsed ?req" and httpRequest = ?req
        and ClientConnection = exampleConn and matchRoute = noRoute and srv = exampleServer,
        OF _ allowed]
    by (simp add: v example_negotiated_version noRoute_def parsed_def)
  then show ?thesis
    by (simp add: v m example_negotiated_version example_allowed_methods)
qed

text \<open>
  Claim C2, amended. For every parsed request whose method, trimmed and in upper case,
  is in no table entry whose version key equals the negotiated version up to letter
  case, the handler creates the response, sets status 405, calls the error handler and
  closes the connection; route matching is not attempted, whatever it would give.
\<close>

theorem handleClient_method_not_allowed:
  assumes "read ClientConnection = Inr httpRequest"
    and "\<not> (\<exists>(versionNo, AllowedMethods) \<in> set Versions.
              EqualFold U versionNo
                (getResponseVersion U ParseFloat Sprintf Versions
                   (HttpRequest.Version httpRequest)) \<and>
              ToUpper U (TrimSpace U (Method httpRequest)) \<in> set AllowedMethods)"
  shows "handleClient U ParseFloat Sprintf Versions read matchRoute srv ClientConnection
     = [ReadRequest ClientConnection,
        CreateResponse \<lparr>Version = getResponseVersion U ParseFloat Sprintf Versions
                                    (HttpRequest.Version httpRequest),
                        StatusCode = None\<rparr>,
        CallErrorHandler httpRequest
          \<lparr>Version = getResponseVersion U ParseFloat Sprintf Versions
                        (HttpRequest.Version httpRequest),
            StatusCode = Some 405\<rparr>,
        CloseConnection ClientConnection]"
  using assms by (intro handleClient_refused) (simp_all add: isMethodAllowed_iff)

text \<open>A \<open>DELETE\<close> request for a path that no route matches is answered 405.\<close>

theorem handleClient_method_not_allowed_witness:
  "handleClient asciiOnly parseOneDecimal printOneDecimal exampleVersions
     (parsed (request ''DELETE'' ''/missing'' ''1.1'')) noRoute exampleServer exampleConn
   = [ReadRequest exampleConn,
      CreateResponse \<lparr>Version = ''1.1'', StatusCode = None\<rparr>,
      CallErrorHandler (request ''DELETE'' ''/missing'' ''1.1'')
        \<lparr>Version = ''1.1'', StatusCode = Some 405\<rparr>,
      CloseConnection exampleConn]"
proof -
  let ?req = "request ''DELETE'' ''/missing'' ''1.1''"
  have v: "HttpRequest.Version ?req = ''1.1''" and m: "Method ?req = ''DELETE''"
    by (simp_all add: request_def)
  have refused: "\<not> (\<exists>(versionNo, AllowedMethods) \<in> set exampleVersions.
              EqualFold asciiOnly versionNo
                (getResponseVersion asciiOnly parseOneDecimal printOneDecimal exampleVersions
                   (HttpRequest.Version ?req)) \<and>
              ToUpper asciiOnly (TrimSpace asciiOnly (Method ?req)) \<in> set AllowedMethods)"
    using example_allowed_methods(3)
    unfolding v m example_negotiated_version example_normalised_methods isMethodAllowed_iff
    by simp
  show ?thesis
    using handleClient_method_not_allowed [where U = asciiOnly and read = "parsed ?req"
        and httpRequest = ?req and ClientConnection = exampleConn and matchRoute = noRoute
        and srv = exampleServer, OF _ refused]
    by (simp add: v example_negotiated_version parsed_def)
qed

text \<open>
  Claim C3. For every parsed request that passes the method check: when route matching
  fails, the handler logs the error, sets status 404, calls the error handler and closes
  the connection; when route matching gives a handler, that handler is called with the
  request, as route matching left it, and the response, which has no status set, and
  the error handler is not called.
\<close>

theorem handleClient_route_outcome:
  assumes "read ClientConnection = Inr httpRequest"
    and "isMethodAllowed U Versions
           (getResponseVersion U ParseFloat Sprintf Versions (HttpRequest.Version httpRequest))
           (ToUpper U (TrimSpace U (Method httpRequest)))"
  shows "(\<forall>err matched. matchRoute (innerRouter srv) httpRequest = (Inl err, matched) \<longrightarrow>
            handleClient U ParseFloat Sprintf Versions read matchRoute srv ClientConnection
              = [ReadRequest ClientConnection,
                 CreateResponse \<lparr>Version = getResponseVersion U ParseFloat Sprintf Versions
                                             (HttpRequest.Version httpRequest),
                                 StatusCode = None\<rparr>,
                 CallMatchRoute httpRequest,
                 LogError err,
                 CallErrorHandler matched
                   \<lparr>Version = getResponseVersion U ParseFloat Sprintf Versions
                                 (HttpRequest.Version httpRequest),
                     StatusCode = Some 404\<rparr>,
                 CloseConnection ClientConnection]) \<and>
         (\<forall>routeHandler matched.
            matchRoute (innerRouter srv) httpRequest = (Inr routeHandler, matched) \<longrightarrow>
            handleClient U ParseFloat Sprintf Versions read matchRoute srv ClientConnection
              = [ReadRequest ClientConnection,
                 CreateResponse \<lparr>Version = getResponseVersion U ParseFloat Sprintf Versions
                                             (HttpRequest.Version httpRequest),
                                 StatusCode = None\<rparr>,
                 CallMatchRoute httpRequest,
                 CallHandler routeHandler matched
                   \<lparr>Version = getResponseVersion U ParseFloat Sprintf Versions
                                 (HttpRequest.Version httpRequest),
                     StatusCode = None\<rparr>,
                 CloseConnection ClientConnection])"
  using handleClient_routed [where read = read and ClientConnection = ClientConnection
      and matchRoute = matchRoute and srv = srv, OF assms] by simp

text \<open>
  A \<open>GET\<close> request that no route matches is answered 404; one that matches the route
  of handler 7 is handed to it, with the segment bound.
\<close>

theorem handleClient_route_outcome_witness:
  "handleClient asciiOnly parseOneDecimal printOneDecimal exampleVersions
     (parsed (request ''GET'' ''/user/alice'' ''1.1'')) noRoute exampleServer exampleConn
   = [ReadRequest exampleConn,
      CreateResponse \<lparr>Version = ''1.1'', StatusCode = None\<rparr>,
      CallMatchRoute (request ''GET'' ''/user/alice'' ''1.1''),
      LogError ''RouteNotFound'',
      CallErrorHandler (request ''GET'' ''/user/alice'' ''1.1'')
        \<lparr>Version = ''1.1'', StatusCode = Some 404\<rparr>,
      CloseConnection exampleConn] \<and>
   handleClient asciiOnly parseOneDecimal printOneDecimal exampleVersions
     (parsed (request ''GET'' ''/user/alice'' ''1.1'')) userRoute exampleServer exampleConn
   = [ReadRequest exampleConn,
      CreateResponse \<lparr>Version = ''1.1'', StatusCode = None\<rparr>,
      CallMatchRoute (request ''GET'' ''/user/alice'' ''1.1''),
      CallHandler 7
        ((request ''GET'' ''/user/alice'' ''1.1'')\<lparr>Segments := [(''name'', [''alice''])]\<rparr>)
        \<lparr>Version = ''1.1'', StatusCode = None\<rparr>,
      CloseConnection exampleConn]"
proof -
  let ?req = "request ''GET'' ''/user/alice'' ''1.1''"
  have v: "HttpRequest.Version ?req = ''1.1''" and m: "Method ?req = ''GET''"
    by (simp_all add: request_def)
  have allowed: "isMethodAllowed asciiOnly exampleVersions
      (getResponseVersion asciiOnly parseOneDecimal printOneDecimal exampleVersions
         (HttpRequest.Version ?req))
      (ToUpper asciiOnly (TrimSpace asciiOnly (Method ?req)))"
    by (simp add: v m example_negotiated_version example_normalised_methods
        example_allowed_methods)
  show ?thesis
    using handleClient_route_outcome [where U = asciiOnly and read = "parsed ?req" and httpRequest = ?req
        and ClientConnection = exampleConn and matchRoute = noRoute and srv = exampleServer,
        OF _ allowed]
      handleClient_route_outcome [where U = asciiOnly and read = "parsed ?req" and httpRequest = ?req
        and ClientConnection = exampleConn and matchRoute = userRoute and srv = exampleServer,
        OF _ allowed]
    by (simp add: v example_negotiated_version noRoute_def userRoute_def parsed_def)
qed

lemma spawned_acceptLoop: "spawned (acceptLoop accepted) = connections accepted"
  by (induction accepted rule: connections.induct) simp_all

text \<open>
  Claim C7. In every run of the handler the first event is the one read of a request,
  the last event is the close of the connection, and there is no other read and no other
  close: the connection is closed after a parse failure, after the 405 and the 404
  answer and after a matched handler, and no second request is read from it. The accept
  loop starts one run of the handler for each connection it accepts.
\<close>

theorem handleClient_closes_connection:
  "hd (handleClient U ParseFloat Sprintf Versions read matchRoute srv ClientConnection)
     = ReadRequest ClientConnection \<and>
   last (handleClient U ParseFloat Sprintf Versions read matchRoute srv ClientConnection)
     = CloseConnection ClientConnection \<and>
   filter isReadRequest
       (handleClient U ParseFloat Sprintf Versions read matchRoute srv ClientConnection)
     = [ReadRequest ClientConnection] \<and>
   filter isCloseConnection
       (handleClient U ParseFloat Sprintf Versions read matchRoute srv ClientConnection)
     = [CloseConnection ClientConnection] \<and>
   spawned (acceptLoop accepted :: 'h event list) = connections accepted"
proof (cases "read ClientConnection")
  case (Inl err)
  show ?thesis
    by (simp add: handleClient_read_error [where read = read and ClientConnection = ClientConnection, OF Inl] spawned_acceptLoop)
next
  case (Inr httpRequest)
  show ?thesis
  proof (cases "isMethodAllowed U Versions
           (getResponseVersion U ParseFloat Sprintf Versions (HttpRequest.Version httpRequest))
           (ToUpper U (TrimSpace U (Method httpRequest)))")
    case False
    show ?thesis
      by (simp add: handleClient_refused [where read = read and ClientConnection = ClientConnection, OF Inr False] spawned_acceptLoop)
  next
    case True
    show ?thesis
    proof (cases "matchRoute (innerRouter srv) httpRequest")
      case (Pair outcome matched)
      then show ?thesis
        by (cases outcome) (simp_all add: handleClient_routed [where read = read and ClientConnection = ClientConnection, OF Inr True] spawned_acceptLoop)
    qed
  qed
qed

text \<open>The run for a request that cannot be parsed.\<close>

theorem handleClient_closes_connection_witness:
  "last (handleClient asciiOnly parseOneDecimal printOneDecimal exampleVersions
           (unparsable ''malformed request line'') noRoute exampleServer exampleConn)
     = CloseConnection exampleConn \<and>
   filter isCloseConnection
       (handleClient asciiOnly parseOneDecimal printOneDecimal exampleVersions
          (unparsable ''malformed request line'') noRoute exampleServer exampleConn)
     = [CloseConnection exampleConn] \<and>
   spawned (acceptLoop [Inr exampleConn, Inl ''too many open files''] :: nat event list)
     = [exampleConn]"
  using handleClient_closes_connection [where U = asciiOnly and ParseFloat = parseOneDecimal
      and Sprintf = printOneDecimal and Versions = exampleVersions
      and read = "unparsable ''malformed request line''" and matchRoute = noRoute
      and srv = exampleServer and ClientConnection = exampleConn
      and accepted = "[Inr exampleConn, Inl ''too many open files'']"]
  by simp

lemma example_mixed_case:
  "getResponseVersion asciiOnly parseOneDecimal printOneDecimal mixedCaseVersions ''1.1''
     = ''1.1''"
  "\<not> isMethodAllowed asciiOnly mixedCaseVersions ''1.1'' ''GET''"
  "EqualFold asciiOnly ''get'' ''Get''"
  by code_simp+

text \<open>
  Claim C9, as stated, fails. The table entry for version 1.1 holds the method \<open>Get\<close>;
  the request method \<open>get\<close> differs from it only by letter case; the handler compares
  \<open>GET\<close> with the entries as they are written, finds none equal and answers 405 without
  trying the routes, although a route matches.
\<close>

theorem handleClient_mixed_case_entry_counterexample:
  "(''1.1'', [''Get'', ''Head'']) \<in> set mixedCaseVersions \<and>
   EqualFold asciiOnly (Method (request ''get'' ''/user/alice'' ''1.1'')) ''Get'' \<and>
   handleClient asciiOnly parseOneDecimal printOneDecimal mixedCaseVersions
     (parsed (request ''get'' ''/user/alice'' ''1.1'')) userRoute exampleServer exampleConn
   = [ReadRequest exampleConn,
      CreateResponse \<lparr>Version = ''1.1'', StatusCode = None\<rparr>,
      CallErrorHandler (request ''get'' ''/user/alice'' ''1.1'')
        \<lparr>Version = ''1.1'', StatusCode = Some 405\<rparr>,
      CloseConnection exampleConn]"
proof -
  let ?req = "request ''get'' ''/user/alice'' ''1.1''"
  have v: "HttpRequest.Version ?req = ''1.1''" and m: "Method ?req = ''get''"
    by (simp_all add: request_def)
  have isParsed: "parsed ?req exampleConn = Inr ?req"
    by (simp add: parsed_def)
  have refused: "\<not> isMethodAllowed asciiOnly mixedCaseVersions
      (getResponseVersion asciiOnly parseOneDecimal printOneDecimal mixedCaseVersions
         (HttpRequest.Version ?req))
      (ToUpper asciiOnly (TrimSpace asciiOnly (Method ?req)))"
    by (simp add: v m example_mixed_case example_normalised_methods)
  have "handleClient asciiOnly parseOneDecimal printOneDecimal mixedCaseVersions (parsed ?req)
          userRoute exampleServer exampleConn
        = [ReadRequest exampleConn,
           CreateResponse \<lparr>Version = ''1.1'', StatusCode = None\<rparr>,
           CallErrorHandler ?req \<lparr>Version = ''1.1'', StatusCode = Some 405\<rparr>,
           CloseConnection exampleConn]"
    using handleClient_refused [where U = asciiOnly and read = "parsed ?req"
        and httpRequest = ?req and ClientConnection = exampleConn and matchRoute = userRoute
        and srv = exampleServer, OF isParsed refused]
    by (simp add: v example_mixed_case)
  moreover have "(''1.1'', [''Get'', ''Head'']) \<in> set mixedCaseVersions"
    by (simp add: mixedCaseVersions_def)
  moreover have "EqualFold asciiOnly (Method ?req) ''Get''"
    unfolding m by (rule example_mixed_case(3))
  ultimately show ?thesis
    by (intro conjI)
qed

text \<open>
  Claim C9, amended. For every parsed request, route matching is attempted exactly when
  the method, trimmed and in upper case, is an element of the methods of a table entry
  whose version key equals the negotiated version up to letter case, and otherwise the
  error handler is called with status 405. So a request whose method differs only in
  letter case or surrounding white space from a table entry that is itself trimmed and
  in upper case is treated as allowed.
\<close>

theorem handleClient_normalises_method:
  assumes "read ClientConnection = Inr httpRequest"
  shows "(if \<exists>(versionNo, AllowedMethods) \<in> set Versions.
               EqualFold U versionNo
                 (getResponseVersion U ParseFloat Sprintf Versions
                    (HttpRequest.Version httpRequest)) \<and>
               ToUpper U (TrimSpace U (Method httpRequest)) \<in> set AllowedMethods
          then CallMatchRoute httpRequest
                 \<in> set (handleClient U ParseFloat Sprintf Versions read matchRoute srv
                          ClientConnection)
          else CallMatchRoute httpRequest
                 \<notin> set (handleClient U ParseFloat Sprintf Versions read matchRoute srv
                          ClientConnection) \<and>
               CallErrorHandler httpRequest
                   \<lparr>Version = getResponseVersion U ParseFloat Sprintf Versions
                                 (HttpRequest.Version httpRequest),
                     StatusCode = Some 405\<rparr>
                 \<in> set (handleClient U ParseFloat Sprintf Versions read matchRoute srv
                          ClientConnection)) \<and>
         (\<forall>versionNo AllowedMethods entry.
            (versionNo, AllowedMethods) \<in> set Versions \<and>
            EqualFold U versionNo
              (getResponseVersion U ParseFloat Sprintf Versions
                 (HttpRequest.Version httpRequest)) \<and>
            entry \<in> set AllowedMethods \<and> ToUpper U (TrimSpace U entry) = entry \<and>
            ToUpper U (TrimSpace U (Method httpRequest)) = ToUpper U (TrimSpace U entry) \<longrightarrow>
            CallMatchRoute httpRequest
              \<in> set (handleClient U ParseFloat Sprintf Versions read matchRoute srv
                       ClientConnection))"
proof -
  let ?v = "getResponseVersion U ParseFloat Sprintf Versions (HttpRequest.Version httpRequest)"
  let ?m = "ToUpper U (TrimSpace U (Method httpRequest))"
  let ?run = "handleClient U ParseFloat Sprintf Versions read matchRoute srv ClientConnection"
  have yes: "CallMatchRoute httpRequest \<in> set ?run" if "isMethodAllowed U Versions ?v ?m"
    by (simp add: handleClient_routed [where read = read and ClientConnection = ClientConnection, OF assms that])
  have no: "CallMatchRoute httpRequest \<notin> set ?run \<and>
            CallErrorHandler httpRequest \<lparr>Version = ?v, StatusCode = Some 405\<rparr> \<in> set ?run"
    if "\<not> isMethodAllowed U Versions ?v ?m"
    by (simp add: handleClient_refused [where read = read and ClientConnection = ClientConnection, OF assms that])
  have entry: "isMethodAllowed U Versions ?v ?m"
    if "(versionNo, AllowedMethods) \<in> set Versions" "EqualFold U versionNo ?v"
      "entry \<in> set AllowedMethods" "ToUpper U (TrimSpace U entry) = entry"
      "?m = ToUpper U (TrimSpace U entry)"
    for versionNo AllowedMethods entry
    using that unfolding isMethodAllowed_iff by force
  have checked:
    "if isMethodAllowed U Versions ?v ?m then CallMatchRoute httpRequest \<in> set ?run
     else CallMatchRoute httpRequest \<notin> set ?run \<and>
          CallErrorHandler httpRequest \<lparr>Version = ?v, StatusCode = Some 405\<rparr> \<in> set ?run"
    using yes no by simp
  have folded:
    "\<forall>versionNo AllowedMethods entry.
       (versionNo, AllowedMethods) \<in> set Versions \<and> EqualFold U versionNo ?v \<and>
       entry \<in> set AllowedMethods \<and> ToUpper U (TrimSpace U entry) = entry \<and>
       ?m = ToUpper U (TrimSpace U entry) \<longrightarrow>
       CallMatchRoute httpRequest \<in> set ?run"
    using yes entry by blast
  from checked [unfolded isMethodAllowed_iff] folded show ?thesis
    by (rule conjI)
qed

text \<open>The method \<open> get \<close>, with a space on either side, is treated as \<open>GET\<close>.\<close>

theorem handleClient_normalises_method_witness:
  "CallMatchRoute (request '' get '' ''/user/alice'' ''1.1'')
     \<in> set (handleClient asciiOnly parseOneDecimal printOneDecimal exampleVersions
              (parsed (request '' get '' ''/user/alice'' ''1.1'')) userRoute exampleServer
              exampleConn)"
proof -
  let ?req = "request '' get '' ''/user/alice'' ''1.1''"
  have v: "HttpRequest.Version ?req = ''1.1''" and m: "Method ?req = '' get ''"
    by (simp_all add: request_def)
  have isParsed: "parsed ?req exampleConn = Inr ?req"
    by (simp add: parsed_def)
  have entry:
    "(''1.1'', [''GET'', ''HEAD'', ''POST'', ''PUT'']) \<in> set exampleVersions \<and>
     EqualFold asciiOnly ''1.1''
       (getResponseVersion asciiOnly parseOneDecimal printOneDecimal exampleVersions
          (HttpRequest.Version ?req)) \<and>
     ''GET'' \<in> set [''GET'', ''HEAD'', ''POST'', ''PUT''] \<and>
     ToUpper asciiOnly (TrimSpace asciiOnly ''GET'') = ''GET'' \<and>
     ToUpper asciiOnly (TrimSpace asciiOnly (Method ?req)) = ToUpper asciiOnly (TrimSpace asciiOnly ''GET'')"
  proof -
    have "(''1.1'', [''GET'', ''HEAD'', ''POST'', ''PUT'']) \<in> set exampleVersions"
      by (simp add: exampleVersions_def)
    then show ?thesis
      by (simp add: v m example_negotiated_version example_normalised_methods isASCII_def foldPair_def)
  qed
  show ?thesis
    using handleClient_normalises_method [where U = asciiOnly and read = "parsed ?req" and httpRequest = ?req
        and ParseFloat = parseOneDecimal and Sprintf = printOneDecimal
        and Versions = exampleVersions
        and ClientConnection = exampleConn and matchRoute = userRoute and srv = exampleServer,
        OF isParsed, THEN conjunct2, rule_format, OF entry] .
qed

section \<open>Properties: strings that are not ASCII\<close>

text \<open>
  A method that starts with a no-break space (the bytes \<open>0xC2 0xA0\<close>) is trimmed by
  \<open>TrimFunc\<close>, and what that gives, when it has a byte that is not ASCII, is brought to
  upper case by \<open>Map(unicode.ToUpper, _)\<close>. When these give \<open>get\<close> and then
  \<open>GET\<close>, as the library does, the request is routed.
\<close>

lemma TrimSpace_no_break_space:
  "TrimSpace U (CHR 0xC2 # CHR 0xA0 # s) = TrimFunc U (CHR 0xC2 # CHR 0xA0 # s)"
  by (simp add: TrimSpace_def asciiSpace_def isASCII_def)

lemma ToUpper_not_ASCII:
  "\<not> list_all isASCII s \<Longrightarrow> ToUpper U s = MapToUpper U s"
  by (simp add: ToUpper_def)

lemma handleClient_no_break_space:
  assumes "TrimFunc U (CHR 0xC2 # CHR 0xA0 # ''get'') = ''get''"
  shows "CallMatchRoute (request (CHR 0xC2 # CHR 0xA0 # ''get'') ''/user/alice'' ''1.1'')
           \<in> set (handleClient U parseOneDecimal printOneDecimal exampleVersions
                    (parsed (request (CHR 0xC2 # CHR 0xA0 # ''get'') ''/user/alice'' ''1.1''))
                    userRoute exampleServer exampleConn)"
proof -
  let ?req = "request (CHR 0xC2 # CHR 0xA0 # ''get'') ''/user/alice'' ''1.1''"
  have isParsed: "parsed ?req exampleConn = Inr ?req"
    by (simp add: parsed_def)
  have norm: "ToUpper U (TrimSpace U (Method ?req)) = ''GET''"
  proof -
    have "TrimSpace U (Method ?req) = ''get''"
      using assms by (simp add: request_def TrimSpace_no_break_space)
    moreover have "ToUpper U ''get'' = ''GET''"
      by code_simp
    ultimately show ?thesis by simp
  qed
  have version:
    "getResponseVersion U parseOneDecimal printOneDecimal exampleVersions
       (HttpRequest.Version ?req) = ''1.1''"
  proof -
    have "getResponseVersion U parseOneDecimal printOneDecimal exampleVersions ''1.1'' = ''1.1''"
      by code_simp
    then show ?thesis by (simp add: request_def)
  qed
  have "isMethodAllowed U exampleVersions ''1.1'' ''GET''"
    by code_simp
  then have allowed: "isMethodAllowed U exampleVersions
      (getResponseVersion U parseOneDecimal printOneDecimal exampleVersions
         (HttpRequest.Version ?req))
      (ToUpper U (TrimSpace U (Method ?req)))"
    by (simp add: norm version)
  show ?thesis
    by (simp add: handleClient_routed [where read = "parsed ?req"
          and ClientConnection = exampleConn, OF isParsed allowed])
qed

end
